theory Spec2Isabelle
  imports Complex_Main
begin

section \<open>Python values and primitives\<close>

text \<open>
  Python floats are modelled as exact rationals: every arithmetic operation of the source
  is the exact operation here, and rounding, infinities and NaN are outside the model.
  Texts are lists of characters; only ASCII characters are classified as white space,
  digits or letters, and only they are changed by upper and lower.
\<close>

type_synonym pyfloat = rat

datatype py_error = ValueError | TypeError | AttributeError | ZeroDivisionError
  | UnboundLocalError

definition is_space :: "char \<Rightarrow> bool" where
  "is_space c = (c \<in> set [CHR 0x09, CHR 0x0A, CHR 0x0B, CHR 0x0C, CHR 0x0D,
                           CHR 0x1C, CHR 0x1D, CHR 0x1E, CHR 0x1F, CHR 0x20])"

definition is_digit :: "char \<Rightarrow> bool" where
  "is_digit c = (48 \<le> (of_char c :: nat) \<and> (of_char c :: nat) \<le> 57)"

definition digit_val :: "char \<Rightarrow> nat" where
  "digit_val c = of_char c - 48"

definition digit_char :: "nat \<Rightarrow> char" where
  "digit_char n = char_of (48 + n)"

definition is_alpha :: "char \<Rightarrow> bool" where
  "is_alpha c = ((65 \<le> (of_char c :: nat) \<and> (of_char c :: nat) \<le> 90) \<or>
                 (97 \<le> (of_char c :: nat) \<and> (of_char c :: nat) \<le> 122))"

definition upper_char :: "char \<Rightarrow> char" where
  "upper_char c = (if 97 \<le> (of_char c :: nat) \<and> (of_char c :: nat) \<le> 122
                   then char_of ((of_char c :: nat) - 32) else c)"


text \<open>\<^verbatim>\<open>s.upper()\<close>, \<^verbatim>\<open>s.lower()\<close>, \<^verbatim>\<open>s.strip()\<close>, \<^verbatim>\<open>s.isalpha()\<close>.\<close>

definition upper :: "string \<Rightarrow> string" where
  "upper s = map upper_char s"


definition strip :: "string \<Rightarrow> string" where
  "strip s = rev (dropWhile is_space (rev (dropWhile is_space s)))"

definition isalpha :: "string \<Rightarrow> bool" where
  "isalpha s = (s \<noteq> [] \<and> list_all is_alpha s)"

text \<open>\<^verbatim>\<open>s.replace(",", ".")\<close>\<close>

definition replace_comma :: "string \<Rightarrow> string" where
  "replace_comma s = map (\<lambda>c. if c = CHR '','' then CHR ''.'' else c) s"

text \<open>
  \<^verbatim>\<open>s.split(sep, maxsplit)\<close> for a one-character separator: at most \<open>maxsplit\<close> cuts,
  from the left; the last part keeps the rest of the text.
\<close>

fun split_max :: "char \<Rightarrow> nat \<Rightarrow> string \<Rightarrow> string list" where
  "split_max sep n [] = [[]]"
| "split_max sep 0 (c # cs) = [c # cs]"
| "split_max sep (Suc n) (c # cs) =
     (if c = sep then [] # split_max sep n cs
      else (case split_max sep (Suc n) cs of
              p # ps \<Rightarrow> (c # p) # ps
            | [] \<Rightarrow> [[c]]))"

text \<open>\<^verbatim>\<open>s.split(sep)\<close>: no bound on the cuts (a text has fewer separators than characters).\<close>

definition split_all :: "char \<Rightarrow> string \<Rightarrow> string list" where
  "split_all sep s = split_max sep (length s) s"



text \<open>
  \<^verbatim>\<open>int(s)\<close> on a text: white space around it is dropped, one sign is allowed, then
  decimal digits, where single underscores may stand between digits. Anything else is
  a ValueError (\<open>None\<close>).
\<close>

fun int_digits :: "bool \<Rightarrow> nat \<Rightarrow> string \<Rightarrow> nat option" where
  "int_digits prev acc [] = (if prev then Some acc else None)"
| "int_digits prev acc (c # cs) =
     (if is_digit c then int_digits True (acc * 10 + digit_val c) cs
      else if c = CHR ''_'' \<and> prev then int_digits False acc cs
      else None)"

definition py_int :: "string \<Rightarrow> int option" where
  "py_int s =
     (case strip s of
        [] \<Rightarrow> None
      | c # cs \<Rightarrow>
          if c = CHR ''-'' then map_option (\<lambda>n. - int n) (int_digits False 0 cs)
          else if c = CHR ''+'' then map_option int (int_digits False 0 cs)
          else map_option int (int_digits False 0 (c # cs)))"

text \<open>\<^verbatim>\<open>str(n)\<close> and the \<^verbatim>\<open>{n}\<close> of an f-string, for an integer.\<close>

function str_nat :: "nat \<Rightarrow> string" where
  "str_nat n = (if n < 10 then [digit_char n]
                else str_nat (n div 10) @ [digit_char (n mod 10)])"
  by pat_completeness auto
termination
  by (relation "measure id") auto

declare str_nat.simps [simp del]



text \<open>
  The regular expression \<^verbatim>\<open>^-?\d+\.?\d*$\<close> of \<^verbatim>\<open>is_number_message\<close>: an optional
  minus sign, at least one digit, an optional point, any number of digits, the end.
\<close>

definition matches_number :: "string \<Rightarrow> bool" where
  "matches_number s =
     (let s1 = (case s of [] \<Rightarrow> [] | c # r \<Rightarrow> if c = CHR ''-'' then r else c # r);
          ds = takeWhile is_digit s1;
          r1 = dropWhile is_digit s1;
          r2 = (case r1 of [] \<Rightarrow> [] | c # r \<Rightarrow> if c = CHR ''.'' then r else c # r)
      in ds \<noteq> [] \<and> list_all is_digit r2)"

text \<open>\<^verbatim>\<open>is_number_message\<close> (bot.py, 123 to 128).\<close>

definition is_number_message :: "string \<Rightarrow> bool" where
  "is_number_message text =
     (if text = [] \<or> strip text = [] then False
      else matches_number (replace_comma (strip text)))"

section \<open>The environment of one event\<close>

text \<open>
  What the code takes from outside the repository is a parameter of the model:
  Python's \<^verbatim>\<open>float(s)\<close> on a text (\<open>None\<close> is its ValueError) and the text of a float in
  an f-string, the country table \<^verbatim>\<open>country_to_currency\<close> of the module
  \<^verbatim>\<open>current_api\<close>, the answer of the rate provider to one request, the clock
  \<^verbatim>\<open>time.time()\<close> and the access key of the configuration.
\<close>

datatype json = JNull | JBool bool | JNum pyfloat | JStr string
  | JArr "json list" | JObj "(string \<times> json) list"

datatype http_outcome =
    Request_exception string
  | Json_value_error string
  | Json_body json

record env =
  float_of :: "string \<Rightarrow> pyfloat option"
  float_str :: "pyfloat \<Rightarrow> string"
  country_to_currency :: "string \<Rightarrow> string option"
  http_get :: "string \<Rightarrow> string \<Rightarrow> string \<Rightarrow> pyfloat \<Rightarrow> http_outcome"
  now :: pyfloat
  ACCESS_KEY :: string

text \<open>\<^verbatim>\<open>parse_amount\<close> (bot.py, 131 to 133).\<close>

definition parse_amount :: "env \<Rightarrow> string \<Rightarrow> py_error + pyfloat" where
  "parse_amount e text =
     (case float_of e (replace_comma (strip text)) of
        None \<Rightarrow> Inl ValueError
      | Some v \<Rightarrow> Inr v)"

text \<open>
  An instance of \<^verbatim>\<open>float(s)\<close> on plain decimal literals (a sign, digits, a point,
  digits), and an instance of the text of a float that writes the integer part, a point
  and at most seventeen decimals. They are used to run the model on concrete inputs.
\<close>

definition digits_value :: "string \<Rightarrow> pyfloat" where
  "digits_value ds = foldl (\<lambda>a c. a * 10 + of_nat (digit_val c)) 0 ds"

definition float_decimal :: "string \<Rightarrow> pyfloat option" where
  "float_decimal s =
     (let t = strip s;
          neg = (t \<noteq> [] \<and> hd t = CHR ''-'');
          t1 = (if t \<noteq> [] \<and> (hd t = CHR ''-'' \<or> hd t = CHR ''+'') then tl t else t);
          ip = takeWhile is_digit t1;
          r1 = dropWhile is_digit t1;
          fp = (case r1 of [] \<Rightarrow> [] | c # r \<Rightarrow> if c = CHR ''.'' then r else c # r);
          v = digits_value ip + digits_value fp / 10 ^ length fp
      in if (ip \<noteq> [] \<or> (fp \<noteq> [] \<and> r1 \<noteq> fp)) \<and> list_all is_digit fp
         then Some (if neg then - v else v)
         else None)"

fun frac_digits :: "nat \<Rightarrow> pyfloat \<Rightarrow> string" where
  "frac_digits 0 x = []"
| "frac_digits (Suc n) x =
     (if x = 0 then []
      else digit_char (nat \<lfloor>x * 10\<rfloor>) # frac_digits n (x * 10 - of_int \<lfloor>x * 10\<rfloor>))"

definition decimal_str :: "pyfloat \<Rightarrow> string" where
  "decimal_str x =
     (let a = \<bar>x\<bar>; ip = \<lfloor>a\<rfloor>; fr = frac_digits 17 (a - of_int ip)
      in (if x < 0 then [CHR ''-''] else []) @ str_nat (nat ip) @ [CHR ''.'']
           @ (if fr = [] then [CHR ''0''] else fr))"

section \<open>api_client.py: the rate cache\<close>

text \<open>
  A parsed JSON document, with Python's reading of it: \<^verbatim>\<open>d.get(k, default)\<close> (an
  AttributeError on anything but a dict), the truth value of an object, and
  \<^verbatim>\<open>float(v)\<close>.
\<close>

definition json_get :: "json \<Rightarrow> string \<Rightarrow> json \<Rightarrow> py_error + json" where
  "json_get d k dflt =
     (case d of
        JObj kvs \<Rightarrow> Inr (case map_of kvs k of None \<Rightarrow> dflt | Some v \<Rightarrow> v)
      | _ \<Rightarrow> Inl AttributeError)"

definition truthy :: "json \<Rightarrow> bool" where
  "truthy v =
     (case v of
        JNull \<Rightarrow> False
      | JBool b \<Rightarrow> b
      | JNum x \<Rightarrow> x \<noteq> 0
      | JStr s \<Rightarrow> s \<noteq> []
      | JArr xs \<Rightarrow> xs \<noteq> []
      | JObj kvs \<Rightarrow> kvs \<noteq> [])"

definition is_dict :: "json \<Rightarrow> bool" where
  "is_dict v = (case v of JObj kvs \<Rightarrow> True | _ \<Rightarrow> False)"

definition json_float :: "env \<Rightarrow> json \<Rightarrow> py_error + pyfloat" where
  "json_float e v =
     (case v of
        JNum x \<Rightarrow> Inr x
      | JBool b \<Rightarrow> Inr (if b then 1 else 0)
      | JStr s \<Rightarrow> (case float_of e s of None \<Rightarrow> Inl ValueError | Some x \<Rightarrow> Inr x)
      | _ \<Rightarrow> Inl TypeError)"

text \<open>
  The dict of a successful conversion (lines 64 to 70 and 106 to 112) and the dict of a
  failure (lines 83 to 89 and 99 to 104): the error kind, the code when there is one,
  the info.
\<close>

record conversion =
  conv_success :: bool
  conv_from :: json
  conv_to :: json
  conv_amount :: pyfloat
  conv_result :: pyfloat

datatype convert_result =
    Converted conversion
  | Failed string "json option" json



text \<open>
  The module state: \<^verbatim>\<open>_convert_cache\<close>, from the pair of currencies to the stored
  conversion and its time. The model also keeps the requests sent to the provider, in
  order, so that a theorem can count them.
\<close>

record api_state =
  convert_cache :: "string \<times> string \<rightharpoonup> conversion \<times> pyfloat"
  requests_sent :: "(string \<times> string \<times> pyfloat) list"

definition CONVERT_CACHE_TTL :: pyfloat where
  "CONVERT_CACHE_TTL = 300"

text \<open>The fixed texts of lines 86, 95 and 98, as their UTF-8 bytes.\<close>

definition TEXT_CONNECT_FAILED :: string where
  "TEXT_CONNECT_FAILED =
     [CHR 0xD0, CHR 0x9D, CHR 0xD0, CHR 0xB5, CHR 0x20, CHR 0xD1, CHR 0x83, CHR 0xD0,
      CHR 0xB4, CHR 0xD0, CHR 0xB0, CHR 0xD0, CHR 0xBB, CHR 0xD0, CHR 0xBE, CHR 0xD1,
      CHR 0x81, CHR 0xD1, CHR 0x8C, CHR 0x20, CHR 0xD1, CHR 0x81, CHR 0xD0, CHR 0xB2,
      CHR 0xD1, CHR 0x8F, CHR 0xD0, CHR 0xB7, CHR 0xD0, CHR 0xB0, CHR 0xD1, CHR 0x82,
      CHR 0xD1, CHR 0x8C, CHR 0xD1, CHR 0x81, CHR 0xD1, CHR 0x8F, CHR 0x20, CHR 0xD1,
      CHR 0x81, CHR 0x20, CHR 0x41, CHR 0x50, CHR 0x49, CHR 0x3A, CHR 0x20]"

definition TEXT_UNKNOWN_API_ERROR :: string where
  "TEXT_UNKNOWN_API_ERROR =
     [CHR 0xD0, CHR 0x9D, CHR 0xD0, CHR 0xB5, CHR 0xD0, CHR 0xB8, CHR 0xD0, CHR 0xB7,
      CHR 0xD0, CHR 0xB2, CHR 0xD0, CHR 0xB5, CHR 0xD1, CHR 0x81, CHR 0xD1, CHR 0x82,
      CHR 0xD0, CHR 0xBD, CHR 0xD0, CHR 0xB0, CHR 0xD1, CHR 0x8F, CHR 0x20, CHR 0xD0,
      CHR 0xBE, CHR 0xD1, CHR 0x88, CHR 0xD0, CHR 0xB8, CHR 0xD0, CHR 0xB1, CHR 0xD0,
      CHR 0xBA, CHR 0xD0, CHR 0xB0, CHR 0x20, CHR 0x41, CHR 0x50, CHR 0x49, CHR 0x2E]"

definition TEXT_API_ERROR :: string where
  "TEXT_API_ERROR =
     [CHR 0xD0, CHR 0x9E, CHR 0xD1, CHR 0x88, CHR 0xD0, CHR 0xB8, CHR 0xD0, CHR 0xB1,
      CHR 0xD0, CHR 0xBA, CHR 0xD0, CHR 0xB0, CHR 0x20, CHR 0x41, CHR 0x50, CHR 0x49,
      CHR 0x2E]"

text \<open>
  Lines 91 to 104 of \<^verbatim>\<open>convert\<close>: the failure reported by the provider. \<open>data\<close> is a
  dict here, so its \<^verbatim>\<open>get\<close> cannot raise.
\<close>

definition api_error_result :: "json \<Rightarrow> py_error + convert_result" where
  "api_error_result data =
     (case json_get data ''error'' (JObj []) of
        Inl x \<Rightarrow> Inl x
      | Inr err \<Rightarrow>
          if is_dict err then
            (case json_get err ''code'' (JStr ''?'') of
               Inl x \<Rightarrow> Inl x
             | Inr code \<Rightarrow>
                 (case json_get err ''info'' (JStr TEXT_UNKNOWN_API_ERROR) of
                    Inl x \<Rightarrow> Inl x
                  | Inr info \<Rightarrow> Inr (Failed ''api_error'' (Some code) info)))
          else
            (case json_get data ''info'' (JStr TEXT_API_ERROR) of
               Inl x \<Rightarrow> Inl x
             | Inr info \<Rightarrow> Inr (Failed ''api_error'' (Some err) info)))"

text \<open>
  Lines 106 to 112: the dict of the fresh conversion, its entries evaluated in the order
  they are written; the first one that raises ends the call.
\<close>

definition fresh_result :: "env \<Rightarrow> json \<Rightarrow> string \<Rightarrow> string \<Rightarrow> pyfloat \<Rightarrow> py_error + conversion" where
  "fresh_result e data from_currency to_currency amount =
     (case json_get data ''query'' (JObj []) of
        Inl x \<Rightarrow> Inl x
      | Inr q \<Rightarrow>
     (case json_get q ''from'' (JStr from_currency) of
        Inl x \<Rightarrow> Inl x
      | Inr f \<Rightarrow>
     (case json_get q ''to'' (JStr to_currency) of
        Inl x \<Rightarrow> Inl x
      | Inr t \<Rightarrow>
     (case json_get q ''amount'' (JNum amount) of
        Inl x \<Rightarrow> Inl x
      | Inr a \<Rightarrow>
     (case json_float e a of
        Inl x \<Rightarrow> Inl x
      | Inr a' \<Rightarrow>
     (case json_get data ''result'' (JNum 0) of
        Inl x \<Rightarrow> Inl x
      | Inr r \<Rightarrow>
     (case json_float e r of
        Inl x \<Rightarrow> Inl x
      | Inr r' \<Rightarrow>
          Inr \<lparr>conv_success = True, conv_from = f, conv_to = t,
               conv_amount = a', conv_result = r'\<rparr>)))))))"

text \<open>
  Lines 72 to 114: the request to the provider. The request is sent first, whatever
  comes back; only a successful answer is stored in the cache.
\<close>

definition convert_remote ::
  "env \<Rightarrow> string \<Rightarrow> string \<Rightarrow> string \<Rightarrow> pyfloat \<Rightarrow> api_state
     \<Rightarrow> (py_error + convert_result) \<times> api_state" where
  "convert_remote e access_key from_currency to_currency amount st =
     (let st1 = st\<lparr>requests_sent :=
                      requests_sent st @ [(from_currency, to_currency, amount)]\<rparr>
      in case http_get e access_key from_currency to_currency amount of
           Request_exception msg \<Rightarrow>
             (Inr (Failed ''request_failed'' None (JStr (TEXT_CONNECT_FAILED @ msg))), st1)
         | Json_value_error msg \<Rightarrow>
             (Inr (Failed ''invalid_response'' None (JStr msg)), st1)
         | Json_body data \<Rightarrow>
             (case json_get data ''success'' (JBool False) of
                Inl x \<Rightarrow> (Inl x, st1)
              | Inr s \<Rightarrow>
                  if \<not> truthy s then
                    (case api_error_result data of
                       Inl x \<Rightarrow> (Inl x, st1)
                     | Inr r \<Rightarrow> (Inr r, st1))
                  else
                    (case fresh_result e data from_currency to_currency amount of
                       Inl x \<Rightarrow> (Inl x, st1)
                     | Inr result \<Rightarrow>
                         (Inr (Converted result),
                          st1\<lparr>convert_cache :=
                                (convert_cache st1)((from_currency, to_currency)
                                   \<mapsto> (result, now e))\<rparr>))))"

text \<open>\<^verbatim>\<open>convert\<close> (api_client.py, 49 to 114).\<close>

definition convert ::
  "env \<Rightarrow> string \<Rightarrow> string \<Rightarrow> string \<Rightarrow> pyfloat \<Rightarrow> api_state
     \<Rightarrow> (py_error + convert_result) \<times> api_state" where
  "convert e access_key from_currency0 to_currency0 amount st =
     (let from_currency = upper from_currency0;
          to_currency = upper to_currency0;
          cache_key = (from_currency, to_currency)
      in case convert_cache st cache_key of
           Some (cached_result, cached_at) \<Rightarrow>
             if now e - cached_at < CONVERT_CACHE_TTL \<and> conv_success cached_result then
               (let rate' = conv_result cached_result
                              / max (conv_amount cached_result) (1 / 10 ^ 9)
                in (Inr (Converted \<lparr>conv_success = True, conv_from = JStr from_currency,
                                    conv_to = JStr to_currency, conv_amount = amount,
                                    conv_result = amount * rate'\<rparr>), st))
             else convert_remote e access_key from_currency to_currency amount st
         | None \<Rightarrow> convert_remote e access_key from_currency to_currency amount st)"

section \<open>The storage module\<close>

text \<open>
  The module \<^verbatim>\<open>db\<close> of the repository holds the trips, the expenses, the active trip
  and the pending conversation state of each user. A trip and an expense carry the fields
  the operations below read or write; identifiers of expenses and creation times are
  left out.
\<close>

record trip =
  trip_id :: int
  owner :: int
  name :: string
  home_currency :: string
  dest_currency :: string
  rate :: pyfloat
  balance_dest :: pyfloat

record expense =
  expense_trip :: int
  amount_dest :: pyfloat
  amount_home :: pyfloat

record database =
  user_state :: "int \<rightharpoonup> string \<times> string option"
  trips :: "int \<rightharpoonup> trip"
  expenses :: "expense list"
  active_trip :: "int \<rightharpoonup> int"
  next_trip_id :: int

text \<open>
  Modelled from the spec: \<^verbatim>\<open>db.set_user_state\<close>, \<^verbatim>\<open>db.clear_state\<close> and
  \<^verbatim>\<open>db.get_user_state\<close> are not among the sources. One state per user, a state name and
  a payload; it is overwritten on each transition and cleared when a flow ends.
\<close>

definition set_user_state :: "int \<Rightarrow> string \<Rightarrow> string option \<Rightarrow> database \<Rightarrow> database" where
  "set_user_state uid st data d = d\<lparr>user_state := (user_state d)(uid \<mapsto> (st, data))\<rparr>"

definition clear_state :: "int \<Rightarrow> database \<Rightarrow> database" where
  "clear_state uid d = d\<lparr>user_state := (user_state d)(uid := None)\<rparr>"

definition get_user_state :: "int \<Rightarrow> database \<Rightarrow> (string \<times> string option) option" where
  "get_user_state uid d = user_state d uid"

text \<open>
  Modelled from the spec: \<^verbatim>\<open>db.get_trip\<close> is not among the sources. A read-only
  projection: the trip with this identifier when it exists and belongs to the caller.
\<close>

definition get_trip :: "int \<Rightarrow> int \<Rightarrow> database \<Rightarrow> trip option" where
  "get_trip tid uid d =
     (case trips d tid of
        None \<Rightarrow> None
      | Some t \<Rightarrow> if owner t = uid then Some t else None)"

text \<open>
  Modelled from the spec: \<^verbatim>\<open>db.create_trip\<close> is not among the sources. It inserts a
  trip whose balance is the destination amount and makes it the active trip of its
  owner; it fails when the two currencies are equal. How the failure is reported is not
  said: here no identifier is returned and nothing is stored.
\<close>

definition create_trip ::
  "int \<Rightarrow> string \<Rightarrow> string \<Rightarrow> string \<Rightarrow> pyfloat \<Rightarrow> pyfloat \<Rightarrow> pyfloat \<Rightarrow> database
     \<Rightarrow> int option \<times> database" where
  "create_trip uid nm home dest r amount_home' amount_dest' d =
     (if home = dest then (None, d)
      else (let tid = next_trip_id d
            in (Some tid,
                d\<lparr>trips := (trips d)(tid \<mapsto>
                      \<lparr>trip_id = tid, owner = uid, name = nm, home_currency = home,
                       dest_currency = dest, rate = r, balance_dest = amount_dest'\<rparr>),
                  active_trip := (active_trip d)(uid \<mapsto> tid),
                  next_trip_id := tid + 1\<rparr>)))"

text \<open>
  Modelled from the spec: \<^verbatim>\<open>db.update_trip_rate\<close> is not among the sources. It requires
  a positive new rate and a trip of the caller; it updates the rate only and leaves the
  balance untouched.
\<close>

definition update_trip_rate :: "int \<Rightarrow> int \<Rightarrow> pyfloat \<Rightarrow> database \<Rightarrow> bool \<times> database" where
  "update_trip_rate tid uid new_rate d =
     (case get_trip tid uid d of
        None \<Rightarrow> (False, d)
      | Some t \<Rightarrow>
          if new_rate \<le> 0 then (False, d)
          else (True, d\<lparr>trips := (trips d)(tid \<mapsto> t\<lparr>rate := new_rate\<rparr>)\<rparr>))"

text \<open>
  Modelled from the spec: \<^verbatim>\<open>db.add_expense\<close> is not among the sources. It is declined
  (a false result, no exception) when the trip is not found, is not owned by the caller,
  the destination amount is not positive or is greater than the current balance;
  otherwise it decrements the balance and appends one expense row, in one step.
\<close>

definition add_expense :: "int \<Rightarrow> int \<Rightarrow> pyfloat \<Rightarrow> pyfloat \<Rightarrow> database \<Rightarrow> bool \<times> database" where
  "add_expense tid uid amount_dest' amount_home' d =
     (case trips d tid of
        None \<Rightarrow> (False, d)
      | Some t \<Rightarrow>
          if owner t \<noteq> uid then (False, d)
          else if amount_dest' \<le> 0 then (False, d)
          else if balance_dest t < amount_dest' then (False, d)
          else (True,
                d\<lparr>trips := (trips d)(tid \<mapsto>
                      t\<lparr>balance_dest := balance_dest t - amount_dest'\<rparr>),
                  expenses := expenses d @
                      [\<lparr>expense_trip = tid, amount_dest = amount_dest',
                        amount_home = amount_home'\<rparr>]\<rparr>))"

text \<open>
  A sequence of expense attempts, each with its trip, caller and amounts, run from left
  to right.
\<close>

fun add_expenses :: "(int \<times> int \<times> pyfloat \<times> pyfloat) list \<Rightarrow> database \<Rightarrow> database" where
  "add_expenses [] d = d"
| "add_expenses ((tid, uid, a, h) # rest) d = add_expenses rest (snd (add_expense tid uid a h d))"

section \<open>bot.py: the conversation flows\<close>

text \<open>
  What the bot sends is kept as data: one constructor for each text of the source, named
  after what it says and carrying the values the source formats into it, and one for
  each keyboard. \<open>Expense_confirm_markup\<close> carries the callback data of its Yes button.
\<close>

datatype fetch_fail_msg = Limit_exceeded | Service_unavailable

datatype message_text =
    Main_menu_text
  | Currency_not_found_from
  | Home_currency_is string
  | Currency_not_found_to
  | Dest_must_differ
  | Choose_rate_source string string
  | Restart_trip_creation
  | Enter_positive_sum
  | Trip_created string "trip option" string string
  | Session_expired
  | Fetch_failed fetch_fail_msg string string
  | Current_rate string pyfloat string pyfloat
  | Expense_data_error
  | Expense_bad_format
  | Expense_declined
  | Expense_recorded "trip option"
  | Enter_positive_rate
  | Error_restart
  | Rate_accepted string pyfloat string
  | Enter_positive_new_rate
  | Trip_not_found
  | Rate_updated string pyfloat string

datatype markup =
    No_markup
  | Main_menu_markup
  | Back_to_main_markup
  | Rate_source_markup
  | Rate_confirm_markup
  | Expense_confirm_markup (yes_callback_data: string)

record message =
  msg_text :: string
  msg_user :: int
  msg_chat :: int

text \<open>
  The state the handlers work on: the storage, the rate cache of \<^verbatim>\<open>api_client\<close>, and
  the messages sent so far, oldest first. A handler returns, or raises with the state as
  it was when the exception left it. \<open>No_flow_state\<close> is the end of the flow part of
  \<^verbatim>\<open>handle_message\<close>: no pending flow state claims the message, and lines 783 to 874
  (the menu buttons and the entry of an expense) take over.
\<close>

record world =
  wdb :: database
  wapi :: api_state
  outbox :: "(int \<times> message_text \<times> markup) list"

datatype outcome = Done world | Raised py_error world | No_flow_state world

definition send_message :: "int \<Rightarrow> message_text \<Rightarrow> markup \<Rightarrow> world \<Rightarrow> world" where
  "send_message chat txt mk w = w\<lparr>outbox := outbox w @ [(chat, txt, mk)]\<rparr>"

definition on_db :: "(database \<Rightarrow> database) \<Rightarrow> world \<Rightarrow> world" where
  "on_db f w = w\<lparr>wdb := f (wdb w)\<rparr>"

text \<open>\<^verbatim>\<open>send_main_menu\<close> (114 to 119): the given text, or the text of the main menu.\<close>

definition send_main_menu :: "int \<Rightarrow> message_text option \<Rightarrow> world \<Rightarrow> world" where
  "send_main_menu chat txt w =
     send_message chat (case txt of None \<Rightarrow> Main_menu_text | Some t \<Rightarrow> t) Main_menu_markup w"

text \<open>\<^verbatim>\<open>not cur\<close> for the answer of the country table: nothing found, or an empty code.\<close>

definition not_found :: "string option \<Rightarrow> bool" where
  "not_found cur = (case cur of None \<Rightarrow> True | Some c \<Rightarrow> c = [])"

text \<open>\<^verbatim>\<open>handle_newtrip_country_from\<close> (145 to 158).\<close>

definition handle_newtrip_country_from :: "env \<Rightarrow> message \<Rightarrow> int \<Rightarrow> world \<Rightarrow> outcome" where
  "handle_newtrip_country_from e m uid w =
     (let country = strip (msg_text m);
          cur = country_to_currency e country
      in if not_found cur then Done (send_message (msg_chat m) Currency_not_found_from No_markup w)
         else Done (send_message (msg_chat m) (Home_currency_is (the cur)) No_markup
                      (on_db (set_user_state uid ''newtrip_country_to'' cur) w)))"

text \<open>\<^verbatim>\<open>handle_newtrip_country_to\<close> (161 to 188).\<close>

definition handle_newtrip_country_to :: "env \<Rightarrow> message \<Rightarrow> int \<Rightarrow> string \<Rightarrow> world \<Rightarrow> outcome" where
  "handle_newtrip_country_to e m uid state_data w =
     (let home_currency' = state_data;
          country = strip (msg_text m);
          cur0 = country_to_currency e country
      in if not_found cur0 \<and> \<not> (length country = 3 \<and> isalpha country)
         then Done (send_message (msg_chat m) Currency_not_found_to No_markup w)
         else (let cur = (if not_found cur0 then upper country else the cur0)
               in if cur = home_currency'
                  then Done (send_message (msg_chat m) Dest_must_differ No_markup w)
                  else Done (send_message (msg_chat m)
                               (Choose_rate_source home_currency' cur) Rate_source_markup
                               (on_db (set_user_state uid ''newtrip_choose_rate_source''
                                    (Some (home_currency' @ ''|'' @ cur @ ''|'' @ country))) w))))"

text \<open>\<^verbatim>\<open>handle_newtrip_initial_sum\<close> (191 to 212).\<close>

definition handle_newtrip_initial_sum :: "env \<Rightarrow> message \<Rightarrow> int \<Rightarrow> string \<Rightarrow> world \<Rightarrow> outcome" where
  "handle_newtrip_initial_sum e m uid state_data w =
     (let parts = split_max CHR ''|'' 3 state_data
      in if length parts < 4
         then Done (send_main_menu (msg_chat m) (Some Restart_trip_creation)
                      (on_db (clear_state uid) w))
         else
           (case float_of e (parts ! 2) of
              None \<Rightarrow> Raised ValueError w
            | Some rate_str \<Rightarrow>
                (let home_cur = parts ! 0; dest_cur = parts ! 1;
                     nm = (if length parts > 3 then parts ! 3 else dest_cur)
                 in if \<not> is_number_message (msg_text m)
                    then Done (send_message (msg_chat m) Enter_positive_sum No_markup w)
                    else
                      (case parse_amount e (msg_text m) of
                         Inl x \<Rightarrow> Raised x w
                       | Inr amount_home' \<Rightarrow>
                           if amount_home' \<le> 0
                           then Done (send_message (msg_chat m) Enter_positive_sum No_markup w)
                           else if rate_str = 0 then Raised ZeroDivisionError w
                           else
                             (let amount_dest' = amount_home' / rate_str;
                                  (tid, d1) = create_trip uid nm home_cur dest_cur rate_str
                                                amount_home' amount_dest' (wdb w);
                                  d2 = clear_state uid d1;
                                  trip' = (case tid of None \<Rightarrow> None
                                           | Some i \<Rightarrow> get_trip i uid d2)
                              in Done (send_message (msg_chat m)
                                         (Trip_created nm trip' dest_cur home_cur)
                                         Main_menu_markup (w\<lparr>wdb := d2\<rparr>)))))))"






text \<open>
  \<^verbatim>\<open>cb_expense_confirm\<close> (592 to 620). Its lines 596 to 606, which read the trip and the
  two amounts back from the callback data, are \<open>expense_callback_parts\<close>.
\<close>

datatype expense_callback = Wrong_length | Wrong_format | Expense_request int pyfloat pyfloat

definition expense_callback_parts :: "string \<Rightarrow> expense_callback" where
  "expense_callback_parts data =
     (let parts = split_all CHR ''_'' data
      in if length parts \<noteq> 4 then Wrong_length
         else
           (case py_int (parts ! 1) of
              None \<Rightarrow> Wrong_format
            | Some tid \<Rightarrow>
                (case py_int (parts ! 2) of
                   None \<Rightarrow> Wrong_format
                 | Some a_d \<Rightarrow>
                     (case py_int (parts ! 3) of
                        None \<Rightarrow> Wrong_format
                      | Some a_h \<Rightarrow>
                          Expense_request tid (of_int a_d / 100) (of_int a_h / 100)))))"

definition cb_expense_confirm :: "int \<Rightarrow> int \<Rightarrow> string \<Rightarrow> world \<Rightarrow> outcome" where
  "cb_expense_confirm uid chat data w =
     (case expense_callback_parts data of
        Wrong_length \<Rightarrow> Done (send_message chat Expense_data_error No_markup w)
      | Wrong_format \<Rightarrow> Done (send_message chat Expense_bad_format No_markup w)
      | Expense_request tid amount_dest' amount_home' \<Rightarrow>
          (let (ok, d1) = add_expense tid uid amount_dest' amount_home' (wdb w)
           in if \<not> ok
              then Done (send_message chat Expense_declined Back_to_main_markup (w\<lparr>wdb := d1\<rparr>))
              else Done (send_message chat (Expense_recorded (get_trip tid uid d1))
                           Back_to_main_markup (w\<lparr>wdb := d1\<rparr>))))"

text \<open>
  \<^verbatim>\<open>handle_message\<close> (726 to 781): the part that serves a pending flow state.
\<close>

definition handle_manual_rate :: "env \<Rightarrow> message \<Rightarrow> string \<Rightarrow> world \<Rightarrow> outcome" where
  "handle_manual_rate e m state_data w =
     (let uid = msg_user m; chat = msg_chat m
      in if \<not> is_number_message (msg_text m)
         then Done (send_message chat Enter_positive_rate No_markup w)
         else
           (case parse_amount e (msg_text m) of
              Inl x \<Rightarrow> Raised x w
            | Inr manual_dest_per_home \<Rightarrow>
                if manual_dest_per_home \<le> 0
                then Done (send_message chat Enter_positive_rate No_markup w)
                else
                  (let rate' = 1 / manual_dest_per_home;
                       parts = split_max CHR ''|'' 2 state_data
                   in if length parts < 2
                      then Done (send_main_menu chat (Some Error_restart)
                                   (on_db (clear_state uid) w))
                      else
                        (let home_cur = parts ! 0; dest_cur = parts ! 1;
                             nm = (if length parts > 2 \<and> parts ! 2 \<noteq> []
                                   then strip (parts ! 2) else dest_cur)
                         in Done (send_message chat (Rate_accepted home_cur rate' dest_cur)
                                    No_markup
                                    (on_db (set_user_state uid ''newtrip_initial_sum''
                                        (Some (home_cur @ ''|'' @ dest_cur @ ''|''
                                           @ float_str e rate' @ ''|'' @ nm))) w))))))"

definition handle_setrate_trip :: "env \<Rightarrow> message \<Rightarrow> string \<Rightarrow> world \<Rightarrow> outcome" where
  "handle_setrate_trip e m state_data w =
     (let uid = msg_user m; chat = msg_chat m
      in if \<not> is_number_message (msg_text m)
         then Done (send_message chat Enter_positive_new_rate No_markup w)
         else
           (case parse_amount e (msg_text m) of
              Inl x \<Rightarrow> Raised x w
            | Inr new_rate \<Rightarrow>
                if new_rate \<le> 0
                then Done (send_message chat Enter_positive_new_rate No_markup w)
                else
                  (case py_int state_data of
                     None \<Rightarrow> Done (send_main_menu chat None (on_db (clear_state uid) w))
                   | Some tid \<Rightarrow>
                       (case get_trip tid uid (wdb w) of
                          None \<Rightarrow> Done (send_message chat Trip_not_found Main_menu_markup
                                          (on_db (clear_state uid) w))
                        | Some t0 \<Rightarrow>
                            (let d1 = snd (update_trip_rate tid uid new_rate (wdb w));
                                 d2 = clear_state uid d1
                             in case get_trip tid uid d2 of
                                  None \<Rightarrow> Raised TypeError (w\<lparr>wdb := d2\<rparr>)
                                | Some t \<Rightarrow>
                                    Done (send_message chat
                                            (Rate_updated (home_currency t) (rate t)
                                               (dest_currency t))
                                            Main_menu_markup (w\<lparr>wdb := d2\<rparr>)))))))"

definition handle_message :: "env \<Rightarrow> message \<Rightarrow> world \<Rightarrow> outcome" where
  "handle_message e m w =
     (let uid = msg_user m;
          st = get_user_state uid (wdb w);
          state = (case st of None \<Rightarrow> [] | Some (s, data) \<Rightarrow> s);
          state_data = (case st of None \<Rightarrow> []
                        | Some (s, data) \<Rightarrow> (case data of None \<Rightarrow> [] | Some x \<Rightarrow> x))
      in if state = ''newtrip_country_from'' then handle_newtrip_country_from e m uid w
         else if state = ''newtrip_country_to'' then handle_newtrip_country_to e m uid state_data w
         else if state = ''newtrip_initial_sum'' then handle_newtrip_initial_sum e m uid state_data w
         else if state = ''newtrip_manual_rate'' then handle_manual_rate e m state_data w
         else if state = ''setrate_trip'' then handle_setrate_trip e m state_data w
         else No_flow_state w)"

text \<open>The state a handler leaves behind, however it ended.\<close>

definition world_of :: "outcome \<Rightarrow> world" where
  "world_of r = (case r of Done w \<Rightarrow> w | Raised x w \<Rightarrow> w | No_flow_state w \<Rightarrow> w)"

section \<open>Predicates of the properties and example states\<close>

text \<open>No trip has a negative balance.\<close>

definition balances_ok :: "database \<Rightarrow> bool" where
  "balances_ok d = (\<forall>tid t. trips d tid = Some t \<longrightarrow> 0 \<le> balance_dest t)"

text \<open>
  A storage with one trip of user 7, from RUB to THB at 0.078125 RUB for one THB, with
  100 THB left, and a world around it with an empty cache and nothing sent.
\<close>

definition example_trip :: trip where
  "example_trip = \<lparr>trip_id = 1, owner = 7, name = ''THB'', home_currency = ''RUB'',
     dest_currency = ''THB'', rate = 5 / 64, balance_dest = 100\<rparr>"

definition example_db :: database where
  "example_db = \<lparr>user_state = Map.empty, trips = [1 \<mapsto> example_trip], expenses = [],
     active_trip = [7 \<mapsto> 1], next_trip_id = 2\<rparr>"

definition example_api :: api_state where
  "example_api = \<lparr>convert_cache = Map.empty, requests_sent = []\<rparr>"

definition example_world :: world where
  "example_world = \<lparr>wdb = example_db, wapi = example_api, outbox = []\<rparr>"

text \<open>
  An environment for the examples: a provider that quotes 12.8 THB for one RUB, one that
  reports that the monthly limit is used up, a small country table, and the clock at
  1100. In \<open>cached_api\<close> the pair RUB, THB was stored at time 1000.
\<close>

definition example_provider :: "string \<Rightarrow> string \<Rightarrow> string \<Rightarrow> pyfloat \<Rightarrow> http_outcome" where
  "example_provider key f t a =
     Json_body (JObj [(''success'', JBool True),
       (''query'', JObj [(''from'', JStr f), (''to'', JStr t), (''amount'', JNum a)]),
       (''result'', JNum (a * (64 / 5)))])"


definition example_countries :: "string \<Rightarrow> string option" where
  "example_countries c =
     (if c = ''Russia'' then Some ''RUB''
      else if c = ''Thailand'' then Some ''THB''
      else None)"

definition example_env :: env where
  "example_env = \<lparr>float_of = float_decimal, float_str = decimal_str,
     country_to_currency = example_countries, http_get = example_provider,
     now = 1100, ACCESS_KEY = ''key''\<rparr>"

definition cached_api :: api_state where
  "cached_api = \<lparr>convert_cache = [(''RUB'', ''THB'') \<mapsto>
       (\<lparr>conv_success = True, conv_from = JStr ''RUB'', conv_to = JStr ''THB'',
         conv_amount = 1, conv_result = 64 / 5\<rparr>, 1000)],
     requests_sent = []\<rparr>"

text \<open>
  The call takes the remote path: the pair has no entry, or its entry is not younger
  than the time to live, or is not a success.
\<close>

definition cache_miss :: "env \<Rightarrow> api_state \<Rightarrow> string \<Rightarrow> string \<Rightarrow> bool" where
  "cache_miss e st f t =
     (case convert_cache st (upper f, upper t) of
        None \<Rightarrow> True
      | Some (c, cached_at) \<Rightarrow> \<not> (now e - cached_at < CONVERT_CACHE_TTL \<and> conv_success c))"


definition text_message :: "string \<Rightarrow> message" where
  "text_message t = \<lparr>msg_text = t, msg_user = 7, msg_chat = 7\<rparr>"

text \<open>User 7 is in a given state with a given payload.\<close>

definition state_world :: "string \<Rightarrow> string \<Rightarrow> world" where
  "state_world st payload = on_db (set_user_state 7 st (Some payload)) example_world"

text \<open>
  Lines 163 to 174 of \<^verbatim>\<open>handle_newtrip_country_to\<close>: what the text of a message resolves
  to. The country table decides; when it finds nothing, a text of three letters is taken
  as a currency code, in upper case.
\<close>

definition resolves_to :: "env \<Rightarrow> string \<Rightarrow> string \<Rightarrow> bool" where
  "resolves_to e txt cur =
     (let country = strip txt
      in if not_found (country_to_currency e country)
         then length country = 3 \<and> isalpha country \<and> cur = upper country
         else country_to_currency e country = Some cur)"








section \<open>The ledger keeps balances non-negative\<close>

lemma add_expense_declined:
  "trips d tid = None \<or> (\<exists>t. trips d tid = Some t \<and> (owner t \<noteq> uid \<or> a \<le> 0 \<or> balance_dest t < a))
   \<Longrightarrow> add_expense tid uid a h d = (False, d)"
  by (auto simp: add_expense_def split: option.splits)

lemma add_expense_accepted:
  "trips d tid = Some t \<Longrightarrow> owner t = uid \<Longrightarrow> 0 < a \<Longrightarrow> a \<le> balance_dest t
   \<Longrightarrow> add_expense tid uid a h d =
        (True, d\<lparr>trips := (trips d)(tid \<mapsto> t\<lparr>balance_dest := balance_dest t - a\<rparr>),
                 expenses := expenses d @ [\<lparr>expense_trip = tid, amount_dest = a, amount_home = h\<rparr>]\<rparr>)"
  by (simp add: add_expense_def)

lemma add_expense_balances_ok:
  "balances_ok d \<Longrightarrow> balances_ok (snd (add_expense tid uid a h d))"
  by (auto simp: add_expense_def balances_ok_def split: option.splits)

lemma add_expenses_balances_ok:
  "balances_ok d \<Longrightarrow> balances_ok (add_expenses attempts d)"
proof (induction attempts arbitrary: d)
  case Nil
  then show ?case by simp
next
  case (Cons x xs)
  obtain tid uid a h where x: "x = (tid, uid, a, h)" by (cases x) auto
  from Cons.prems have "balances_ok (snd (add_expense tid uid a h d))"
    by (rule add_expense_balances_ok)
  then show ?case unfolding x by (simp add: Cons.IH)
qed

lemma cb_expense_confirm_balances_ok:
  assumes "balances_ok (wdb w)"
  shows "balances_ok (wdb (world_of (cb_expense_confirm uid chat data w)))"
proof (cases "expense_callback_parts data")
  case Wrong_length
  with assms show ?thesis
    by (simp add: cb_expense_confirm_def world_of_def send_message_def)
next
  case Wrong_format
  with assms show ?thesis
    by (simp add: cb_expense_confirm_def world_of_def send_message_def)
next
  case (Expense_request tid a h)
  obtain ok d1 where r: "add_expense tid uid a h (wdb w) = (ok, d1)"
    by (cases "add_expense tid uid a h (wdb w)") auto
  have "balances_ok d1"
    using add_expense_balances_ok [OF assms, of tid uid a h] r by simp
  with Expense_request r show ?thesis
    by (simp add: cb_expense_confirm_def world_of_def send_message_def)
qed

lemma cb_expense_confirm_returns:
  "\<exists>w'. cb_expense_confirm uid chat data w = Done w'"
  by (simp add: cb_expense_confirm_def Let_def split: expense_callback.splits prod.splits)

text \<open>
  Claim C1. Whatever sequence of \<^verbatim>\<open>add_expense\<close> attempts is run on a storage in which
  no balance is negative, no balance is negative afterwards. An attempt on a trip that is
  not found, is not owned by the caller, with an amount that is not positive or that is
  greater than the current balance is declined with a false result and leaves the storage
  as it was: it is rejected, not clamped. An accepted attempt decrements the balance of
  the trip by the amount and appends exactly one expense row. The handler
  \<^verbatim>\<open>cb_expense_confirm\<close>, which reaches the storage through \<^verbatim>\<open>add_expense\<close> only, keeps the
  balances non-negative too and never raises.
\<close>

theorem add_expense_keeps_balance_non_negative:
  assumes "balances_ok d"
  shows "balances_ok (add_expenses attempts d) \<and>
     (trips d tid1 = None \<or>
         (\<exists>t. trips d tid1 = Some t \<and> (owner t \<noteq> uid1 \<or> a1 \<le> 0 \<or> balance_dest t < a1))
         \<longrightarrow> add_expense tid1 uid1 a1 h1 d = (False, d)) \<and>
     (trips d tid2 = Some t2 \<and> owner t2 = uid2 \<and> 0 < a2 \<and> a2 \<le> balance_dest t2
         \<longrightarrow> add_expense tid2 uid2 a2 h2 d =
               (True, d\<lparr>trips := (trips d)(tid2 \<mapsto> t2\<lparr>balance_dest := balance_dest t2 - a2\<rparr>),
                        expenses := expenses d @
                          [\<lparr>expense_trip = tid2, amount_dest = a2, amount_home = h2\<rparr>]\<rparr>)) \<and>
     (wdb w = d \<longrightarrow> balances_ok (wdb (world_of (cb_expense_confirm uid3 chat data w)))) \<and>
     (\<exists>w'. cb_expense_confirm uid3 chat data w = Done w')"
proof (intro conjI impI)
  show "balances_ok (add_expenses attempts d)"
    using assms by (rule add_expenses_balances_ok)
next
  assume "trips d tid1 = None \<or>
         (\<exists>t. trips d tid1 = Some t \<and> (owner t \<noteq> uid1 \<or> a1 \<le> 0 \<or> balance_dest t < a1))"
  then show "add_expense tid1 uid1 a1 h1 d = (False, d)"
    by (rule add_expense_declined)
next
  assume "trips d tid2 = Some t2 \<and> owner t2 = uid2 \<and> 0 < a2 \<and> a2 \<le> balance_dest t2"
  then show "add_expense tid2 uid2 a2 h2 d =
               (True, d\<lparr>trips := (trips d)(tid2 \<mapsto> t2\<lparr>balance_dest := balance_dest t2 - a2\<rparr>),
                        expenses := expenses d @
                          [\<lparr>expense_trip = tid2, amount_dest = a2, amount_home = h2\<rparr>]\<rparr>)"
    by (simp add: add_expense_accepted)
next
  assume "wdb w = d"
  with assms show "balances_ok (wdb (world_of (cb_expense_confirm uid3 chat data w)))"
    by (simp add: cb_expense_confirm_balances_ok)
next
  show "\<exists>w'. cb_expense_confirm uid3 chat data w = Done w'"
    by (rule cb_expense_confirm_returns)
qed

lemma balances_ok_example_db: "balances_ok example_db"
  by (simp add: balances_ok_def example_db_def example_trip_def)

theorem add_expense_keeps_balance_non_negative_witness:
  "balances_ok example_db \<and>
   balances_ok (add_expenses [(1, 7, 30, 3), (1, 7, 80, 8), (1, 8, 5, 1), (1, 7, 70, 7)] example_db) \<and>
   map_option balance_dest
     (trips (add_expenses [(1, 7, 30, 3), (1, 7, 80, 8), (1, 8, 5, 1), (1, 7, 70, 7)] example_db) 1) = Some 0 \<and>
   add_expense 1 7 150 15 example_db = (False, example_db) \<and>
   fst (add_expense 1 7 30 3 example_db) \<and>
   map_option balance_dest (trips (snd (add_expense 1 7 30 3 example_db)) 1) = Some 70 \<and>
   expenses (snd (add_expense 1 7 30 3 example_db)) =
     [\<lparr>expense_trip = 1, amount_dest = 30, amount_home = 3\<rparr>] \<and>
   balances_ok (wdb (world_of (cb_expense_confirm 7 7 ''ex_1_3000_300'' example_world)))"
proof -
  note inst = add_expense_keeps_balance_non_negative [OF balances_ok_example_db,
      of "[(1, 7, 30, 3), (1, 7, 80, 8), (1, 8, 5, 1), (1, 7, 70, 7)]"
         1 7 150 15 1 example_trip 7 30 3 example_world 7 7 "''ex_1_3000_300''"]
  have ex: "trips example_db 1 = Some example_trip" "owner example_trip = 7"
       "balance_dest example_trip = 100" "wdb example_world = example_db"
       "expenses example_db = []"
    by (simp_all add: example_db_def example_trip_def example_world_def)
  have run: "map_option balance_dest
     (trips (add_expenses [(1, 7, 30, 3), (1, 7, 80, 8), (1, 8, 5, 1), (1, 7, 70, 7)] example_db) 1) = Some 0"
    by (simp add: add_expense_def example_db_def example_trip_def)
  have i1: "balances_ok (add_expenses [(1, 7, 30, 3), (1, 7, 80, 8), (1, 8, 5, 1), (1, 7, 70, 7)] example_db)"
    using inst [THEN conjunct1] .
  have i2: "add_expense 1 7 150 15 example_db = (False, example_db)"
    using inst [THEN conjunct2, THEN conjunct1] ex by simp
  have i3: "add_expense 1 7 30 3 example_db =
      (True, example_db\<lparr>trips := (trips example_db)(1 \<mapsto> example_trip\<lparr>balance_dest := 70\<rparr>),
               expenses := [\<lparr>expense_trip = 1, amount_dest = 30, amount_home = 3\<rparr>]\<rparr>)"
    using inst [THEN conjunct2, THEN conjunct2, THEN conjunct1] ex by simp
  have i4: "balances_ok (wdb (world_of (cb_expense_confirm 7 7 ''ex_1_3000_300'' example_world)))"
    using inst [THEN conjunct2, THEN conjunct2, THEN conjunct2, THEN conjunct1] ex by simp
  show ?thesis
    unfolding i3 using i1 i2 i4 run balances_ok_example_db by simp
qed

section \<open>Texts of integers and the callback data of an expense\<close>




















section \<open>The rate cache\<close>

lemma convert_hit:
  assumes "convert_cache st (upper f, upper t) = Some (c, cached_at)"
    and "now e - cached_at < 300" and "conv_success c"
  shows "convert e key f t a st =
     (Inr (Converted \<lparr>conv_success = True, conv_from = JStr (upper f), conv_to = JStr (upper t),
        conv_amount = a,
        conv_result = a * (conv_result c / max (conv_amount c) (1 / 10 ^ 9))\<rparr>), st)"
  using assms by (simp add: convert_def CONVERT_CACHE_TTL_def Let_def)

lemma convert_miss:
  assumes "cache_miss e st f t"
  shows "convert e key f t a st = convert_remote e key (upper f) (upper t) a st"
  using assms by (auto simp: convert_def cache_miss_def Let_def split: option.splits)

lemma convert_remote_sent:
  "requests_sent (snd (convert_remote e key f t a st)) = requests_sent st @ [(f, t, a)]"
  by (simp add: convert_remote_def Let_def split: http_outcome.splits sum.splits)

lemma convert_remote_cache:
  "(case convert_remote e key f t a st of
      (Inr (Converted r), st') \<Rightarrow>
         convert_cache st' = (convert_cache st)((f, t) \<mapsto> (r, now e)) \<and> conv_success r
    | (Inr (Failed kind code info), st') \<Rightarrow>
         convert_cache st' = convert_cache st \<and>
         kind \<in> {''request_failed'', ''invalid_response'', ''api_error''}
    | (Inl x, st') \<Rightarrow> convert_cache st' = convert_cache st)"
  by (auto simp: convert_remote_def Let_def api_error_result_def fresh_result_def
      split: http_outcome.splits sum.splits if_splits)


lemma upper_rub_thb: "upper ''rub'' = ''RUB''" "upper ''thb'' = ''THB''"
  "upper ''RUB'' = ''RUB''" "upper ''THB'' = ''THB''" "upper ''usd'' = ''USD''"
  by code_simp+

text \<open>
  Claim C3. When the cache holds a successful entry for the upper-cased pair that is less
  than 300 time units old, \<^verbatim>\<open>convert\<close> sends no request (the module state, with the
  list of requests sent, is unchanged) and returns a success whose result is the amount
  times the rate of the entry, the rate being the cached result divided by the cached
  principal, the principal floored at \<open>1e-9\<close>. When the pair has no entry, or its entry
  is 300 time units old or older, exactly one request is sent.
\<close>

theorem convert_cached_within_ttl:
  "(convert_cache st (upper f, upper t) = Some (c, cached_at) \<and> now e - cached_at < 300
      \<and> conv_success c \<longrightarrow>
    convert e key f t a st =
      (Inr (Converted \<lparr>conv_success = True, conv_from = JStr (upper f),
          conv_to = JStr (upper t), conv_amount = a,
          conv_result = a * (conv_result c / max (conv_amount c) (1 / 10 ^ 9))\<rparr>), st)) \<and>
   (convert_cache st2 (upper f2, upper t2) = None \<or>
      (\<exists>c2 at2. convert_cache st2 (upper f2, upper t2) = Some (c2, at2) \<and> 300 \<le> now e2 - at2)
    \<longrightarrow> requests_sent (snd (convert e2 key2 f2 t2 a2 st2))
          = requests_sent st2 @ [(upper f2, upper t2, a2)])"
proof (intro conjI impI)
  assume "convert_cache st (upper f, upper t) = Some (c, cached_at) \<and> now e - cached_at < 300
      \<and> conv_success c"
  then show "convert e key f t a st =
      (Inr (Converted \<lparr>conv_success = True, conv_from = JStr (upper f),
          conv_to = JStr (upper t), conv_amount = a,
          conv_result = a * (conv_result c / max (conv_amount c) (1 / 10 ^ 9))\<rparr>), st)"
    by (simp add: convert_hit)
next
  assume "convert_cache st2 (upper f2, upper t2) = None \<or>
      (\<exists>c2 at2. convert_cache st2 (upper f2, upper t2) = Some (c2, at2) \<and> 300 \<le> now e2 - at2)"
  then have "cache_miss e2 st2 f2 t2"
    by (auto simp: cache_miss_def CONVERT_CACHE_TTL_def)
  then show "requests_sent (snd (convert e2 key2 f2 t2 a2 st2))
          = requests_sent st2 @ [(upper f2, upper t2, a2)]"
    by (simp add: convert_miss convert_remote_sent)
qed

theorem convert_cached_within_ttl_witness:
  "convert example_env ''key'' ''rub'' ''thb'' 50000 cached_api =
      (Inr (Converted \<lparr>conv_success = True, conv_from = JStr ''RUB'', conv_to = JStr ''THB'',
          conv_amount = 50000, conv_result = 640000\<rparr>), cached_api) \<and>
   requests_sent (snd (convert (example_env\<lparr>now := 1300\<rparr>) ''key'' ''rub'' ''thb'' 50000 cached_api))
      = [(''RUB'', ''THB'', 50000)] \<and>
   requests_sent (snd (convert example_env ''key'' ''usd'' ''thb'' 2 cached_api))
      = [(''USD'', ''THB'', 2)]"
proof -
  let ?c = "\<lparr>conv_success = True, conv_from = JStr ''RUB'', conv_to = JStr ''THB'',
         conv_amount = 1, conv_result = 64 / 5\<rparr>"
  have cache: "convert_cache cached_api (''RUB'', ''THB'') = Some (?c, 1000)"
    "convert_cache cached_api (''USD'', ''THB'') = None"
    "requests_sent cached_api = []"
    by (simp_all add: cached_api_def)
  have clock: "now example_env = 1100" "now (example_env\<lparr>now := 1300\<rparr>) = 1300"
    by (simp_all add: example_env_def)
  have hit: "convert example_env ''key'' ''rub'' ''thb'' 50000 cached_api =
      (Inr (Converted \<lparr>conv_success = True, conv_from = JStr ''RUB'', conv_to = JStr ''THB'',
          conv_amount = 50000, conv_result = 640000\<rparr>), cached_api)"
    using convert_cached_within_ttl [of cached_api "''rub''" "''thb''" ?c 1000 example_env
        "''key''" 50000, THEN conjunct1] cache clock
    by (simp add: upper_rub_thb)
  have expired: "requests_sent (snd (convert (example_env\<lparr>now := 1300\<rparr>) ''key'' ''rub'' ''thb'' 50000 cached_api))
      = [(''RUB'', ''THB'', 50000)]"
    using convert_cached_within_ttl [of cached_api "''rub''" "''thb''" ?c 1000 example_env
        "''key''" 50000 cached_api "''rub''" "''thb''" "example_env\<lparr>now := 1300\<rparr>"
        "''key''" 50000, THEN conjunct2] cache clock
    by (simp add: upper_rub_thb)
  have absent: "requests_sent (snd (convert example_env ''key'' ''usd'' ''thb'' 2 cached_api))
      = [(''USD'', ''THB'', 2)]"
    using convert_cached_within_ttl [of cached_api "''rub''" "''thb''" ?c 1000 example_env
        "''key''" 50000 cached_api "''usd''" "''thb''" example_env
        "''key''" 2, THEN conjunct2] cache
    by (simp add: upper_rub_thb)
  from hit expired absent show ?thesis by simp
qed





section \<open>The fields of a payload\<close>








lemma handle_message_manual_rate:
  "get_user_state (msg_user m) (wdb w) = Some (''newtrip_manual_rate'', Some p)
   \<Longrightarrow> handle_message e m w = handle_manual_rate e m p w"
  by (simp add: handle_message_def)

lemma handle_message_initial_sum:
  "get_user_state (msg_user m) (wdb w) = Some (''newtrip_initial_sum'', Some p)
   \<Longrightarrow> handle_message e m w = handle_newtrip_initial_sum e m (msg_user m) p w"
  by (simp add: handle_message_def)

lemma handle_manual_rate_reprompt:
  assumes "\<not> is_number_message (msg_text m) \<or>
           (\<exists>v. parse_amount e (msg_text m) = Inr v \<and> v \<le> 0)"
  shows "handle_manual_rate e m p w
         = Done (send_message (msg_chat m) Enter_positive_rate No_markup w)"
  using assms by (auto simp: handle_manual_rate_def Let_def)





section \<open>Creating a trip with a rate entered by hand\<close>




lemma example_numbers:
  "is_number_message ''12.8''" "is_number_message ''50000''" "is_number_message ''-5''"
  "\<not> is_number_message ''abc''"
  "float_decimal (replace_comma (strip ''12.8'')) = Some (64 / 5)"
  "float_decimal (replace_comma (strip ''50000'')) = Some 50000"
  "float_decimal (replace_comma (strip ''-5'')) = Some (- 5)"
  "decimal_str (5 / 64) = ''0.078125''"
  "float_decimal ''0.078125'' = Some (5 / 64)"
  "strip ''Thailand'' = ''Thailand''"
  by code_simp+



section \<open>Payloads that do not parse\<close>

lemma initial_sum_short_payload:
  assumes "length (split_max CHR ''|'' 3 p) < 4"
  shows "handle_newtrip_initial_sum e m uid p w
    = Done (send_main_menu (msg_chat m) (Some Restart_trip_creation) (on_db (clear_state uid) w))"
  using assms by (simp add: handle_newtrip_initial_sum_def Let_def del: split_max.simps)

lemma manual_rate_short_payload:
  assumes "length (split_max CHR ''|'' 2 p) < 2"
    and "is_number_message (msg_text m)" and "parse_amount e (msg_text m) = Inr n" and "0 < n"
  shows "handle_manual_rate e m p w
    = Done (send_main_menu (msg_chat m) (Some Error_restart) (on_db (clear_state (msg_user m)) w))"
  using assms by (simp add: handle_manual_rate_def Let_def del: split_max.simps)

lemma cleared_state:
  "get_user_state uid (wdb (send_main_menu chat txt (on_db (clear_state uid) w))) = None"
  by (simp add: send_main_menu_def send_message_def on_db_def clear_state_def get_user_state_def)

lemma state_world_state: "get_user_state 7 (wdb (state_world st p)) = Some (st, Some p)"
  by (simp add: state_world_def on_db_def set_user_state_def get_user_state_def)

lemma text_message_fields: "msg_text (text_message t) = t" "msg_user (text_message t) = 7"
  "msg_chat (text_message t) = 7"
  by (simp_all add: text_message_def)

lemma example_env_fields: "float_of example_env = float_decimal"
  "float_str example_env = decimal_str" "ACCESS_KEY example_env = ''key''"
  "country_to_currency example_env = example_countries"
  by (simp_all add: example_env_def)

lemma short_splits: "length (split_max CHR ''|'' 3 ''RUB'') = 1"
  "length (split_max CHR ''|'' 2 ''RUB'') = 1"
  "split_max CHR ''|'' 3 ''RUB|THB|abc|Thailand'' = [''RUB'', ''THB'', ''abc'', ''Thailand'']"
  by code_simp+

lemma not_numbers: "float_decimal ''abc'' = None"
  by code_simp

text \<open>
  Claim C5, as the code has it. A payload with too few fields ends the flow: in state
  \<^verbatim>\<open>newtrip_initial_sum\<close> (fewer than four fields) whatever the next message is, and in
  state \<^verbatim>\<open>newtrip_manual_rate\<close> (fewer than two fields) when the next message is a
  positive number, the handler clears the stored state, sends a message that asks to
  start over together with the main menu, and returns without raising.
\<close>

theorem short_payload_restarts_flow:
  "(get_user_state (msg_user m) (wdb w) = Some (''newtrip_initial_sum'', Some p) \<and>
    length (split_max CHR ''|'' 3 p) < 4
    \<longrightarrow> handle_message e m w
          = Done (send_main_menu (msg_chat m) (Some Restart_trip_creation)
                    (on_db (clear_state (msg_user m)) w)) \<and>
        get_user_state (msg_user m) (wdb (world_of (handle_message e m w))) = None) \<and>
   (get_user_state (msg_user m2) (wdb w2) = Some (''newtrip_manual_rate'', Some p2) \<and>
    length (split_max CHR ''|'' 2 p2) < 2 \<and>
    is_number_message (msg_text m2) \<and> parse_amount e2 (msg_text m2) = Inr n \<and> 0 < n
    \<longrightarrow> handle_message e2 m2 w2
          = Done (send_main_menu (msg_chat m2) (Some Error_restart)
                    (on_db (clear_state (msg_user m2)) w2)) \<and>
        get_user_state (msg_user m2) (wdb (world_of (handle_message e2 m2 w2))) = None)"
proof (intro conjI impI)
  assume a: "get_user_state (msg_user m) (wdb w) = Some (''newtrip_initial_sum'', Some p) \<and>
    length (split_max CHR ''|'' 3 p) < 4"
  then have eq: "handle_message e m w
          = Done (send_main_menu (msg_chat m) (Some Restart_trip_creation)
                    (on_db (clear_state (msg_user m)) w))"
    by (simp add: handle_message_initial_sum initial_sum_short_payload del: split_max.simps)
  then show "handle_message e m w
          = Done (send_main_menu (msg_chat m) (Some Restart_trip_creation)
                    (on_db (clear_state (msg_user m)) w))" .
  show "get_user_state (msg_user m) (wdb (world_of (handle_message e m w))) = None"
    unfolding eq by (simp add: world_of_def cleared_state)
next
  assume a: "get_user_state (msg_user m2) (wdb w2) = Some (''newtrip_manual_rate'', Some p2) \<and>
    length (split_max CHR ''|'' 2 p2) < 2 \<and>
    is_number_message (msg_text m2) \<and> parse_amount e2 (msg_text m2) = Inr n \<and> 0 < n"
  then have eq: "handle_message e2 m2 w2
          = Done (send_main_menu (msg_chat m2) (Some Error_restart)
                    (on_db (clear_state (msg_user m2)) w2))"
    by (simp add: handle_message_manual_rate manual_rate_short_payload del: split_max.simps)
  then show "handle_message e2 m2 w2
          = Done (send_main_menu (msg_chat m2) (Some Error_restart)
                    (on_db (clear_state (msg_user m2)) w2))" .
  show "get_user_state (msg_user m2) (wdb (world_of (handle_message e2 m2 w2))) = None"
    unfolding eq by (simp add: world_of_def cleared_state)
qed

theorem short_payload_restarts_flow_witness:
  "handle_message example_env (text_message ''abc'') (state_world ''newtrip_initial_sum'' ''RUB'')
     = Done (send_main_menu 7 (Some Restart_trip_creation)
               (on_db (clear_state 7) (state_world ''newtrip_initial_sum'' ''RUB''))) \<and>
   get_user_state 7 (wdb (world_of (handle_message example_env (text_message ''abc'')
       (state_world ''newtrip_initial_sum'' ''RUB'')))) = None \<and>
   handle_message example_env (text_message ''12.8'') (state_world ''newtrip_manual_rate'' ''RUB'')
     = Done (send_main_menu 7 (Some Error_restart)
               (on_db (clear_state 7) (state_world ''newtrip_manual_rate'' ''RUB''))) \<and>
   get_user_state 7 (wdb (world_of (handle_message example_env (text_message ''12.8'')
       (state_world ''newtrip_manual_rate'' ''RUB'')))) = None"
proof -
  have amount: "parse_amount example_env ''12.8'' = Inr (64 / 5)"
    by (simp add: parse_amount_def example_env_fields example_numbers)
  from short_payload_restarts_flow
    [of "text_message ''abc''" "state_world ''newtrip_initial_sum'' ''RUB''" "''RUB''" example_env
        "text_message ''12.8''" "state_world ''newtrip_manual_rate'' ''RUB''" "''RUB''"
        example_env "64 / 5"]
  show ?thesis
    by (simp add: state_world_state text_message_fields short_splits example_numbers amount
        world_of_def cleared_state)
qed

text \<open>
  The claim as it is written does not hold for every message: in state
  \<^verbatim>\<open>newtrip_manual_rate\<close> the text of the message is checked before the payload is
  split. With the one-field payload \<^verbatim>\<open>RUB\<close> the message \<^verbatim>\<open>abc\<close> is answered with the
  prompt for a rate, and the stored state stays as it was.
\<close>

theorem manual_rate_short_payload_kept_counterexample:
  "length (split_max CHR ''|'' 2 ''RUB'') < 2 \<and>
   handle_message example_env (text_message ''abc'') (state_world ''newtrip_manual_rate'' ''RUB'')
     = Done (send_message 7 Enter_positive_rate No_markup
               (state_world ''newtrip_manual_rate'' ''RUB'')) \<and>
   get_user_state 7 (wdb (world_of (handle_message example_env (text_message ''abc'')
       (state_world ''newtrip_manual_rate'' ''RUB''))))
     = Some (''newtrip_manual_rate'', Some ''RUB'')"
proof -
  have eq: "handle_message example_env (text_message ''abc'')
       (state_world ''newtrip_manual_rate'' ''RUB'')
     = Done (send_message 7 Enter_positive_rate No_markup
               (state_world ''newtrip_manual_rate'' ''RUB''))"
    by (simp add: handle_message_manual_rate state_world_state text_message_fields
        handle_manual_rate_reprompt example_numbers)
  show ?thesis
    unfolding eq
    by (simp add: short_splits world_of_def send_message_def state_world_state)
qed

text \<open>
  Claim C10. In state \<^verbatim>\<open>newtrip_initial_sum\<close> the third field of the payload goes to
  \<^verbatim>\<open>float()\<close> right after the count of the fields and before the message is looked at.
  A payload with four fields whose third field is not a number makes the handler raise
  ValueError, whatever the message; the state is not cleared and nothing is sent. The
  payload \<^verbatim>\<open>RUB|THB|abc|Thailand\<close> is such a payload.
\<close>

theorem initial_sum_bad_rate_field_raises:
  assumes "get_user_state (msg_user m) (wdb w) = Some (''newtrip_initial_sum'', Some p)"
    and "length (split_max CHR ''|'' 3 p) = 4"
    and "float_of e (split_max CHR ''|'' 3 p ! 2) = None"
  shows "handle_message e m w = Raised ValueError w"
  using assms
  by (simp add: handle_message_initial_sum handle_newtrip_initial_sum_def Let_def
      del: split_max.simps)

theorem initial_sum_bad_rate_field_raises_witness:
  "length (split_max CHR ''|'' 3 ''RUB|THB|abc|Thailand'') = 4 \<and>
   float_of example_env (split_max CHR ''|'' 3 ''RUB|THB|abc|Thailand'' ! 2) = None \<and>
   handle_message example_env (text_message ''50000'')
       (state_world ''newtrip_initial_sum'' ''RUB|THB|abc|Thailand'')
     = Raised ValueError (state_world ''newtrip_initial_sum'' ''RUB|THB|abc|Thailand'')"
proof -
  have f: "length (split_max CHR ''|'' 3 ''RUB|THB|abc|Thailand'') = 4"
    "float_of example_env (split_max CHR ''|'' 3 ''RUB|THB|abc|Thailand'' ! 2) = None"
    by (simp_all add: short_splits example_env_fields not_numbers del: split_max.simps)
  from initial_sum_bad_rate_field_raises
    [of "text_message ''50000''" "state_world ''newtrip_initial_sum'' ''RUB|THB|abc|Thailand''"
        "''RUB|THB|abc|Thailand''" example_env, OF _ f] f
  show ?thesis
    by (simp add: state_world_state text_message_fields del: split_max.simps)
qed

section \<open>The destination of a new trip\<close>

lemma handle_message_country_to:
  "get_user_state (msg_user m) (wdb w) = Some (''newtrip_country_to'', Some p)
   \<Longrightarrow> handle_message e m w = handle_newtrip_country_to e m (msg_user m) p w"
  by (simp add: handle_message_def)

lemma country_to_same_currency:
  assumes "resolves_to e (msg_text m) cur" and "cur = home"
  shows "handle_newtrip_country_to e m uid home w
    = Done (send_message (msg_chat m) Dest_must_differ No_markup w)"
  using assms
  by (auto simp: handle_newtrip_country_to_def resolves_to_def Let_def not_found_def
      split: option.splits if_splits)

lemma country_to_other_currency:
  assumes "resolves_to e (msg_text m) cur" and "cur \<noteq> home"
  shows "handle_newtrip_country_to e m uid home w
    = Done (send_message (msg_chat m) (Choose_rate_source home cur) Rate_source_markup
        (on_db (set_user_state uid ''newtrip_choose_rate_source''
           (Some (home @ ''|'' @ cur @ ''|'' @ strip (msg_text m)))) w))"
  using assms
  by (auto simp: handle_newtrip_country_to_def resolves_to_def Let_def not_found_def
      split: option.splits if_splits)

lemma country_to_api_untouched:
  "wapi (world_of (handle_newtrip_country_to e m uid home w)) = wapi w"
  by (simp add: handle_newtrip_country_to_def Let_def world_of_def send_message_def on_db_def)

text \<open>
  Claim C8. In state \<^verbatim>\<open>newtrip_country_to\<close>, whose payload is the home currency: when
  the message resolves to the home currency itself, the handler sends the prompt for
  another country and changes nothing else, so the state and its data stay; when it
  resolves to another currency, the state becomes \<^verbatim>\<open>newtrip_choose_rate_source\<close> with
  the payload home, destination and the stripped text of the message, separated by
  \<^verbatim>\<open>|\<close>. In every case the state of the rate cache, with the list of requests sent to
  the provider, is as before: no rate lookup happens in this step.
\<close>

theorem country_to_rejects_home_currency:
  assumes "get_user_state (msg_user m) (wdb w) = Some (''newtrip_country_to'', Some home)"
  shows "(resolves_to e (msg_text m) cur \<and> cur = home
      \<longrightarrow> handle_message e m w = Done (send_message (msg_chat m) Dest_must_differ No_markup w)) \<and>
     (resolves_to e (msg_text m) cur \<and> cur \<noteq> home
      \<longrightarrow> handle_message e m w
          = Done (send_message (msg_chat m) (Choose_rate_source home cur) Rate_source_markup
              (on_db (set_user_state (msg_user m) ''newtrip_choose_rate_source''
                 (Some (home @ ''|'' @ cur @ ''|'' @ strip (msg_text m)))) w))) \<and>
     wapi (world_of (handle_message e m w)) = wapi w"
  unfolding handle_message_country_to [OF assms]
  using country_to_same_currency [of e m cur home "msg_user m" w]
    country_to_other_currency [of e m cur home "msg_user m" w]
    country_to_api_untouched [of e m "msg_user m" home w]
  by blast


lemma country_examples:
  "resolves_to example_env ''Russia'' ''RUB''"
  "resolves_to example_env '' Thailand '' ''THB''"
  "resolves_to example_env ''usd'' ''USD''"
  "strip '' Thailand '' = ''Thailand''" "strip ''usd'' = ''usd''"
  by code_simp+

theorem country_to_rejects_home_currency_witness:
  "handle_message example_env (text_message ''Russia'') (state_world ''newtrip_country_to'' ''RUB'')
     = Done (send_message 7 Dest_must_differ No_markup (state_world ''newtrip_country_to'' ''RUB'')) \<and>
   handle_message example_env (text_message '' Thailand '') (state_world ''newtrip_country_to'' ''RUB'')
     = Done (send_message 7 (Choose_rate_source ''RUB'' ''THB'') Rate_source_markup
          (on_db (set_user_state 7 ''newtrip_choose_rate_source'' (Some ''RUB|THB|Thailand''))
             (state_world ''newtrip_country_to'' ''RUB''))) \<and>
   handle_message example_env (text_message ''usd'') (state_world ''newtrip_country_to'' ''RUB'')
     = Done (send_message 7 (Choose_rate_source ''RUB'' ''USD'') Rate_source_markup
          (on_db (set_user_state 7 ''newtrip_choose_rate_source'' (Some ''RUB|USD|usd''))
             (state_world ''newtrip_country_to'' ''RUB''))) \<and>
   wapi (world_of (handle_message example_env (text_message '' Thailand '')
       (state_world ''newtrip_country_to'' ''RUB''))) = example_api"
proof -
  let ?w = "state_world ''newtrip_country_to'' ''RUB''"
  have st: "\<And>t. get_user_state (msg_user (text_message t)) (wdb ?w)
      = Some (''newtrip_country_to'', Some ''RUB'')"
    by (simp add: state_world_state text_message_fields)
  have api: "wapi ?w = example_api"
    by (simp add: state_world_def on_db_def example_world_def)
  from country_to_rejects_home_currency [OF st [of "''Russia''"], of example_env "''RUB''"]
  have a: "handle_message example_env (text_message ''Russia'') ?w
     = Done (send_message 7 Dest_must_differ No_markup ?w)"
    by (simp add: text_message_fields country_examples)
  note thai = country_to_rejects_home_currency [OF st [of "'' Thailand ''"], of example_env "''THB''"]
  have b: "handle_message example_env (text_message '' Thailand '') ?w
     = Done (send_message 7 (Choose_rate_source ''RUB'' ''THB'') Rate_source_markup
          (on_db (set_user_state 7 ''newtrip_choose_rate_source'' (Some ''RUB|THB|Thailand'')) ?w))"
    using thai [THEN conjunct2, THEN conjunct1]
    by (simp add: text_message_fields country_examples)
  have d: "wapi (world_of (handle_message example_env (text_message '' Thailand '') ?w)) = example_api"
    using thai [THEN conjunct2, THEN conjunct2] by (simp add: api)
  from country_to_rejects_home_currency [OF st [of "''usd''"], of example_env "''USD''"]
  have c: "handle_message example_env (text_message ''usd'') ?w
     = Done (send_message 7 (Choose_rate_source ''RUB'' ''USD'') Rate_source_markup
          (on_db (set_user_state 7 ''newtrip_choose_rate_source'' (Some ''RUB|USD|usd'')) ?w))"
    by (simp add: text_message_fields country_examples)
  from a b c d show ?thesis by simp
qed

section \<open>Changing the rate of a trip\<close>

lemma handle_message_setrate_trip:
  "get_user_state (msg_user m) (wdb w) = Some (''setrate_trip'', Some p)
   \<Longrightarrow> handle_message e m w = handle_setrate_trip e m p w"
  by (simp add: handle_message_def)

lemma handle_setrate_trip_reprompt:
  assumes "\<not> is_number_message (msg_text m) \<or>
           (\<exists>v. parse_amount e (msg_text m) = Inr v \<and> v \<le> 0)"
  shows "handle_setrate_trip e m p w
         = Done (send_message (msg_chat m) Enter_positive_new_rate No_markup w)"
  using assms by (auto simp: handle_setrate_trip_def Let_def)

lemma update_trip_rate_applied:
  assumes "get_trip tid uid d = Some t" and "0 < v"
  shows "update_trip_rate tid uid v d = (True, d\<lparr>trips := (trips d)(tid \<mapsto> t\<lparr>rate := v\<rparr>)\<rparr>)"
  using assms by (simp add: update_trip_rate_def)

lemma update_trip_rate_frame:
  "expenses (snd (update_trip_rate tid uid v d)) = expenses d \<and>
   user_state (snd (update_trip_rate tid uid v d)) = user_state d \<and>
   map_option balance_dest (trips (snd (update_trip_rate tid uid v d)) k)
     = map_option balance_dest (trips d k)"
  by (auto simp: update_trip_rate_def get_trip_def split: option.splits if_splits)

lemma handle_setrate_trip_applied:
  assumes "is_number_message (msg_text m)" and "parse_amount e (msg_text m) = Inr v" and "0 < v"
    and "py_int p = Some tid" and "get_trip tid (msg_user m) (wdb w) = Some t"
  shows "handle_setrate_trip e m p w
    = Done (send_message (msg_chat m) (Rate_updated (home_currency t) v (dest_currency t))
         Main_menu_markup
         (w\<lparr>wdb := clear_state (msg_user m)
                  ((wdb w)\<lparr>trips := (trips (wdb w))(tid \<mapsto> t\<lparr>rate := v\<rparr>)\<rparr>)\<rparr>))"
proof -
  have "owner t = msg_user m"
    using assms(5) by (auto simp: get_trip_def split: option.splits if_splits)
  with assms show ?thesis
    by (simp add: handle_setrate_trip_def Let_def update_trip_rate_applied get_trip_def
        clear_state_def)
qed

lemma handle_setrate_trip_frame:
  assumes "is_number_message (msg_text m)" and "parse_amount e (msg_text m) = Inr v" and "0 < v"
  shows "get_user_state (msg_user m) (wdb (world_of (handle_setrate_trip e m p w))) = None \<and>
     expenses (wdb (world_of (handle_setrate_trip e m p w))) = expenses (wdb w) \<and>
     map_option balance_dest (trips (wdb (world_of (handle_setrate_trip e m p w))) k)
       = map_option balance_dest (trips (wdb w) k)"
proof (cases "py_int p")
  case None
  with assms show ?thesis
    by (simp add: handle_setrate_trip_def Let_def world_of_def send_main_menu_def
        send_message_def on_db_def clear_state_def get_user_state_def)
next
  case (Some tid)
  show ?thesis
  proof (cases "get_trip tid (msg_user m) (wdb w)")
    case None
    with Some assms show ?thesis
      by (simp add: handle_setrate_trip_def Let_def world_of_def
          send_message_def on_db_def clear_state_def get_user_state_def)
  next
    case (Some t)
    from handle_setrate_trip_applied [OF assms \<open>py_int p = Some tid\<close> Some]
    show ?thesis
      using Some
      by (auto simp: world_of_def send_message_def clear_state_def get_user_state_def
          get_trip_def split: option.splits if_splits)
  qed
qed

text \<open>
  Claim C9. In state \<^verbatim>\<open>setrate_trip\<close>: a message that is not a number, or is a number
  that is not positive, is answered with the prompt for a new rate and changes nothing
  else. A message that is a positive number clears the state and leaves every balance
  and the list of expenses as they were; when the payload names a trip of the user, that
  trip gets the new rate in this same step, with its other fields unchanged, and the new
  rate is reported. \<^verbatim>\<open>update_trip_rate\<close> itself never changes a balance or the expenses.
\<close>

theorem setrate_updates_rate_only:
  assumes "get_user_state (msg_user m) (wdb w) = Some (''setrate_trip'', Some sd)"
  shows "(\<not> is_number_message (msg_text m) \<or>
            (\<exists>x. parse_amount e (msg_text m) = Inr x \<and> x \<le> 0)
      \<longrightarrow> handle_message e m w
            = Done (send_message (msg_chat m) Enter_positive_new_rate No_markup w)) \<and>
     (is_number_message (msg_text m) \<and> parse_amount e (msg_text m) = Inr v \<and> 0 < v
      \<longrightarrow> get_user_state (msg_user m) (wdb (world_of (handle_message e m w))) = None \<and>
          expenses (wdb (world_of (handle_message e m w))) = expenses (wdb w) \<and>
          (\<forall>k. map_option balance_dest (trips (wdb (world_of (handle_message e m w))) k)
                 = map_option balance_dest (trips (wdb w) k))) \<and>
     (is_number_message (msg_text m) \<and> parse_amount e (msg_text m) = Inr v \<and> 0 < v \<and>
      py_int sd = Some tid \<and> get_trip tid (msg_user m) (wdb w) = Some t
      \<longrightarrow> handle_message e m w
          = Done (send_message (msg_chat m) (Rate_updated (home_currency t) v (dest_currency t))
               Main_menu_markup
               (w\<lparr>wdb := clear_state (msg_user m)
                  ((wdb w)\<lparr>trips := (trips (wdb w))(tid \<mapsto> t\<lparr>rate := v\<rparr>)\<rparr>)\<rparr>))) \<and>
     expenses (snd (update_trip_rate tid' uid' v' d)) = expenses d \<and>
     (\<forall>k. map_option balance_dest (trips (snd (update_trip_rate tid' uid' v' d)) k)
            = map_option balance_dest (trips d k))"
  unfolding handle_message_setrate_trip [OF assms]
  using handle_setrate_trip_reprompt [of m e sd w]
    handle_setrate_trip_frame [of m e v sd w]
    handle_setrate_trip_applied [of m e v sd tid w t]
    update_trip_rate_frame [of tid' uid' v' d]
  by blast


lemma setrate_examples:
  "py_int ''1'' = Some 1" "is_number_message ''0.08''"
  "float_decimal (replace_comma (strip ''0.08'')) = Some (2 / 25)"
  by code_simp+

theorem setrate_updates_rate_only_witness:
  "handle_message example_env (text_message ''abc'') (state_world ''setrate_trip'' ''1'')
     = Done (send_message 7 Enter_positive_new_rate No_markup (state_world ''setrate_trip'' ''1'')) \<and>
   handle_message example_env (text_message ''0.08'') (state_world ''setrate_trip'' ''1'')
     = Done (send_message 7 (Rate_updated ''RUB'' (2 / 25) ''THB'') Main_menu_markup
          ((state_world ''setrate_trip'' ''1'')\<lparr>wdb := clear_state 7
              ((wdb (state_world ''setrate_trip'' ''1''))\<lparr>trips :=
                  (trips (wdb (state_world ''setrate_trip'' ''1'')))
                    (1 \<mapsto> example_trip\<lparr>rate := 2 / 25\<rparr>)\<rparr>)\<rparr>)) \<and>
   get_user_state 7 (wdb (world_of (handle_message example_env (text_message ''0.08'')
       (state_world ''setrate_trip'' ''1'')))) = None \<and>
   expenses (wdb (world_of (handle_message example_env (text_message ''0.08'')
       (state_world ''setrate_trip'' ''1'')))) = [] \<and>
   map_option balance_dest (trips (wdb (world_of (handle_message example_env
       (text_message ''0.08'') (state_world ''setrate_trip'' ''1'')))) 1) = Some 100"
proof -
  let ?w = "state_world ''setrate_trip'' ''1''"
  have st: "\<And>t. get_user_state (msg_user (text_message t)) (wdb ?w)
      = Some (''setrate_trip'', Some ''1'')"
    by (simp add: state_world_state text_message_fields)
  have db: "get_trip 1 7 (wdb ?w) = Some example_trip" "expenses (wdb ?w) = []"
    "map_option balance_dest (trips (wdb ?w) 1) = Some 100"
    by (simp_all add: state_world_def on_db_def set_user_state_def example_world_def
        example_db_def example_trip_def get_trip_def)
  have amount: "parse_amount example_env ''0.08'' = Inr (2 / 25)"
    by (simp add: parse_amount_def example_env_fields setrate_examples)
  have fields: "home_currency example_trip = ''RUB''" "dest_currency example_trip = ''THB''"
    by (simp_all add: example_trip_def)
  note bad = setrate_updates_rate_only [OF st [of "''abc''"], of example_env]
  note good = setrate_updates_rate_only [OF st [of "''0.08''"], of example_env "2 / 25" 1
      example_trip]
  have a: "handle_message example_env (text_message ''abc'') ?w
     = Done (send_message 7 Enter_positive_new_rate No_markup ?w)"
    using bad [THEN conjunct1] by (simp add: text_message_fields example_numbers)
  have b: "get_user_state 7 (wdb (world_of (handle_message example_env (text_message ''0.08'') ?w)))
      = None \<and>
     expenses (wdb (world_of (handle_message example_env (text_message ''0.08'') ?w))) = [] \<and>
     map_option balance_dest (trips (wdb (world_of (handle_message example_env
       (text_message ''0.08'') ?w))) 1) = Some 100"
    using good [THEN conjunct2, THEN conjunct1] db
    by (simp add: text_message_fields setrate_examples amount)
  have c: "handle_message example_env (text_message ''0.08'') ?w
     = Done (send_message 7 (Rate_updated ''RUB'' (2 / 25) ''THB'') Main_menu_markup
          (?w\<lparr>wdb := clear_state 7
              ((wdb ?w)\<lparr>trips := (trips (wdb ?w))(1 \<mapsto> example_trip\<lparr>rate := 2 / 25\<rparr>)\<rparr>)\<rparr>))"
    using good [THEN conjunct2, THEN conjunct2, THEN conjunct1] db(1)
    by (simp add: text_message_fields setrate_examples amount fields)
  from a b c show ?thesis by blast
qed

section \<open>Falling back to a rate entered by hand\<close>










end
